theory Spec2Isabelle
  imports Complex_Main
begin

section \<open>Backtracking line search of MINGROC++ (LineSearchBacktracking.cpp)\<close>

subsection \<open>Scalars\<close>

text \<open>
  The template parameter \<^verbatim>\<open>Scalar\<close> is a floating-point type. A value is NaN, an infinity,
  or finite, and a finite value is given by the real number it denotes (the two zeros are not
  told apart: they compare equal and the sign of a zero has no effect here). Comparisons are
  exact, and every ordered comparison with NaN is false.
\<close>

datatype scalar = NaN | NInf | Fin real | PInf

fun s_less :: "scalar \<Rightarrow> scalar \<Rightarrow> bool" where
  "s_less NaN b = False"
| "s_less a NaN = False"
| "s_less (Fin a) (Fin b) = (a < b)"
| "s_less a NInf = False"
| "s_less NInf b = True"
| "s_less PInf b = False"
| "s_less a PInf = True"

fun s_le :: "scalar \<Rightarrow> scalar \<Rightarrow> bool" where
  "s_le NaN b = False"
| "s_le a NaN = False"
| "s_le (Fin a) (Fin b) = (a \<le> b)"
| "s_le NInf b = True"
| "s_le a PInf = True"
| "s_le a b = False"

text \<open>
  The sum, the product and the complex magnitude of finite values are rounded, and may
  overflow, as the type \<^verbatim>\<open>Scalar\<close> chosen for the template prescribes. They are parameters:
  \<open>add_fin\<close> and \<open>mul_fin\<close> give the result of \<^verbatim>\<open>+\<close> and \<^verbatim>\<open>*\<close> on two finite values, and
  \<open>abs_fin\<close> the result of \<^verbatim>\<open>std::abs\<close> on a complex number with finite parts. Every theorem
  about the line search below holds for every such arithmetic. With a NaN or an infinity among
  the operands the results follow IEEE 754: \<open>\<infinity> - \<infinity>\<close> and \<open>0 \<cdot> \<infinity>\<close> are NaN.
\<close>

record scalar_arith =
  add_fin :: "real \<Rightarrow> real \<Rightarrow> scalar"
  mul_fin :: "real \<Rightarrow> real \<Rightarrow> scalar"
  abs_fin :: "real \<Rightarrow> real \<Rightarrow> scalar"

fun s_add :: "'z scalar_arith_scheme \<Rightarrow> scalar \<Rightarrow> scalar \<Rightarrow> scalar" where
  "s_add R NaN b = NaN"
| "s_add R a NaN = NaN"
| "s_add R (Fin a) (Fin b) = add_fin R a b"
| "s_add R PInf NInf = NaN"
| "s_add R NInf PInf = NaN"
| "s_add R PInf b = PInf"
| "s_add R a PInf = PInf"
| "s_add R NInf b = NInf"
| "s_add R a NInf = NInf"

fun s_mul :: "'z scalar_arith_scheme \<Rightarrow> scalar \<Rightarrow> scalar \<Rightarrow> scalar" where
  "s_mul R NaN b = NaN"
| "s_mul R a NaN = NaN"
| "s_mul R (Fin a) (Fin b) = mul_fin R a b"
| "s_mul R (Fin a) PInf = (if a = 0 then NaN else if 0 < a then PInf else NInf)"
| "s_mul R (Fin a) NInf = (if a = 0 then NaN else if 0 < a then NInf else PInf)"
| "s_mul R PInf (Fin b) = (if b = 0 then NaN else if 0 < b then PInf else NInf)"
| "s_mul R NInf (Fin b) = (if b = 0 then NaN else if 0 < b then NInf else PInf)"
| "s_mul R PInf PInf = PInf"
| "s_mul R NInf NInf = PInf"
| "s_mul R PInf NInf = NInf"
| "s_mul R NInf PInf = NInf"

text \<open>\<^verbatim>\<open>fx != fx\<close> holds exactly for NaN; \<^verbatim>\<open>std::isinf\<close> for the two infinities.\<close>

definition isnan :: "scalar \<Rightarrow> bool" where
  "isnan a = (a = NaN)"

definition isinf :: "scalar \<Rightarrow> bool" where
  "isinf a = (a = PInf \<or> a = NInf)"

type_synonym Vector = "scalar list"

text \<open>A complex scalar is its real and imaginary part.\<close>

type_synonym cplx = "scalar \<times> scalar"

type_synonym CplxVector = "cplx list"

text \<open>\<^verbatim>\<open>std::abs\<close> of a complex number: an infinite part gives \<open>+\<infinity>\<close>, otherwise a NaN part
  gives NaN.\<close>

fun c_abs :: "'z scalar_arith_scheme \<Rightarrow> cplx \<Rightarrow> scalar" where
  "c_abs R (Fin p, Fin q) = abs_fin R p q"
| "c_abs R (a, b) = (if isinf a \<or> isinf b then PInf else NaN)"

text \<open>\<^verbatim>\<open>grad.dot(drt)\<close>: the products summed from the first entry on, every operation rounded.\<close>

definition dot :: "'z scalar_arith_scheme \<Rightarrow> Vector \<Rightarrow> Vector \<Rightarrow> scalar" where
  "dot R u v = foldl (s_add R) (Fin 0) (map2 (s_mul R) u v)"

text \<open>\<^verbatim>\<open>xp + step * drt\<close> and \<^verbatim>\<open>wp + step * dw\<close>, entry by entry. Eigen requires both
  operands to have the same size; on lists the shorter one decides.\<close>

definition v_axpy :: "'z scalar_arith_scheme \<Rightarrow> Vector \<Rightarrow> scalar \<Rightarrow> Vector \<Rightarrow> Vector" where
  "v_axpy R xp s d = map2 (\<lambda>a b. s_add R a (s_mul R s b)) xp d"

definition c_axpy ::
  "'z scalar_arith_scheme \<Rightarrow> CplxVector \<Rightarrow> scalar \<Rightarrow> CplxVector \<Rightarrow> CplxVector"
where
  "c_axpy R wp s d =
     map2 (\<lambda>a b. (s_add R (fst a) (s_mul R s (fst b)), s_add R (snd a) (s_mul R s (snd b))))
       wp d"

text \<open>
  The arithmetic of IEEE 754 binary64 (\<^verbatim>\<open>double\<close>), used for the instance below: the exact
  result rounded to the nearest value with a 53-bit significand, ties to the even significand,
  with gradual underflow below \<open>2\<^sup>-\<^sup>1\<^sup>0\<^sup>2\<^sup>2\<close> and overflow to an infinity from \<open>2\<^sup>1\<^sup>0\<^sup>2\<^sup>4\<close> on.
\<close>

definition rne :: "real \<Rightarrow> int" where
  "rne q = (let f = \<lfloor>q\<rfloor> in
              if q - of_int f < 1 / 2 then f
              else if 1 / 2 < q - of_int f then f + 1
              else if even f then f else f + 1)"

definition ulp64 :: "real \<Rightarrow> real" where
  "ulp64 x = power_int 2 (max (- 1022) \<lfloor>log 2 \<bar>x\<bar>\<rfloor> - 52)"

definition round64_real :: "real \<Rightarrow> real" where
  "round64_real x = (if x = 0 then 0 else of_int (rne (x / ulp64 x)) * ulp64 x)"

definition round64 :: "real \<Rightarrow> scalar" where
  "round64 x =
     (if 2 ^ 1024 \<le> \<bar>round64_real x\<bar> then (if 0 < x then PInf else NInf)
      else Fin (round64_real x))"

text \<open>\<^verbatim>\<open>std::abs\<close> of a complex \<^verbatim>\<open>double\<close> is \<^verbatim>\<open>hypot\<close>, which returns the magnitude of the
  other part when one part is zero.\<close>

definition binary64 :: scalar_arith where
  "binary64 =
     \<lparr>add_fin = (\<lambda>a b. round64 (a + b)),
      mul_fin = (\<lambda>a b. round64 (a * b)),
      abs_fin = (\<lambda>p q. if q = 0 then Fin \<bar>p\<bar> else if p = 0 then Fin \<bar>q\<bar>
                        else round64 (sqrt (p * p + q * q)))\<rparr>"

subsection \<open>Parameters, collaborators and the arguments of a call\<close>

text \<open>The field \<^verbatim>\<open>lineSearchTermination\<close> is compared with three named constants; every
  other stored value is the fourth constructor.\<close>

datatype line_search_termination =
    LINE_SEARCH_TERMINATION_NONE
  | LINE_SEARCH_TERMINATION_DECREASE
  | LINE_SEARCH_TERMINATION_ARMIJO
  | LINE_SEARCH_TERMINATION_OTHER int

record MINGROCParam =
  ftol :: scalar
  maxLineSearch :: int
  minStep :: scalar
  maxStep :: scalar
  lineSearchTermination :: line_search_termination
  checkSelfIntersections :: bool

text \<open>The members of \<^verbatim>\<open>MINGROC\<close> that the line search reads or calls. Its two methods are
  not part of the file; they are parameters here. \<^verbatim>\<open>calculateEnergy\<close> also fills two local
  output buffers that the line search never reads.\<close>

record 'n MINGROC =
  m_F :: "(nat \<times> nat \<times> nat) list"
  m_bdyIDx :: "nat list"
  convertRealToComplex :: "Vector \<Rightarrow> CplxVector"
  calculateEnergy :: "CplxVector \<Rightarrow> CplxVector \<Rightarrow> 'n \<Rightarrow> bool \<Rightarrow> bool \<Rightarrow> scalar"

text \<open>What the loop takes from outside the file, parameters as well: the arithmetic of
  \<^verbatim>\<open>Scalar\<close>, the projection of the boundary entries onto the unit circle, and libigl's
  self-intersection predicate on the lifted vertices and the faces.\<close>

record externals = scalar_arith +
  clipToUnitCircle :: "nat list \<Rightarrow> CplxVector \<Rightarrow> CplxVector"
  find_self_intersections :: "(scalar \<times> scalar \<times> scalar) list \<Rightarrow> (nat \<times> nat \<times> nat) list \<Rightarrow> bool"

text \<open>The read-only arguments of \<^verbatim>\<open>LineSearch\<close>.\<close>

record 'n ls_args =
  mingroc :: "'n MINGROC"
  param :: MINGROCParam
  NNI :: 'n
  fixIDx :: "nat list"
  drt :: Vector
  dw :: CplxVector
  grad :: Vector
  calcGrowthEnergy :: bool
  calcMuEnergy :: bool

text \<open>The four in/out references \<^verbatim>\<open>fx\<close>, \<^verbatim>\<open>x\<close>, \<^verbatim>\<open>w\<close> and \<^verbatim>\<open>step\<close>.\<close>

record ls_state =
  fx_ref :: scalar
  x_ref :: Vector
  w_ref :: CplxVector
  step_ref :: scalar

text \<open>The exceptions of the file, by class and place. The first one is constructed at line 49
  but never thrown.\<close>

datatype error =
    InvalidArgument_StepPositive
  | LogicError_NotDescent
  | RuntimeError_MaxIterations
  | RuntimeError_StepTooSmall
  | RuntimeError_StepTooLarge
  | InvalidArgument_Termination

datatype outcome = Returned | Raised error

text \<open>How one pass through the loop body ends.\<close>

datatype control = Break ls_state | Continue ls_state | Throw error ls_state

text \<open>Ghost record of one pass: the candidate that was built, whether it was valid, and the
  energy when the evaluator was called.\<close>

record trial =
  t_iter :: int
  t_step :: scalar
  t_x :: Vector
  t_mu :: CplxVector
  t_w :: CplxVector
  t_valid :: bool
  t_energy :: "scalar option"

subsection \<open>The loop\<close>

definition dec :: scalar where
  "dec = Fin (1 / 2)"

definition inc_factor :: scalar where
  "inc_factor = Fin (21 / 10)"

text \<open>Lines 104 and 105: \<^verbatim>\<open>w(fixIDx(i)) = wp(fixIDx(i))\<close> for every entry of \<^verbatim>\<open>fixIDx\<close> in
  order. An index outside the vector is undefined behaviour in the source; here it changes
  nothing.\<close>

definition pin :: "nat list \<Rightarrow> CplxVector \<Rightarrow> CplxVector \<Rightarrow> CplxVector" where
  "pin idx wp w0 = foldl (\<lambda>w' i. w'[i := wp ! i]) w0 idx"

text \<open>Lines 92 to 105: the candidate for a step.\<close>

definition trial_x :: "externals \<Rightarrow> 'n ls_args \<Rightarrow> Vector \<Rightarrow> scalar \<Rightarrow> Vector" where
  "trial_x E A xp s = v_axpy E xp s (drt A)"

definition trial_mu :: "externals \<Rightarrow> 'n ls_args \<Rightarrow> Vector \<Rightarrow> scalar \<Rightarrow> CplxVector" where
  "trial_mu E A xp s = convertRealToComplex (mingroc A) (trial_x E A xp s)"

definition trial_w :: "externals \<Rightarrow> 'n ls_args \<Rightarrow> CplxVector \<Rightarrow> scalar \<Rightarrow> CplxVector" where
  "trial_w E A wp s =
     pin (fixIDx A) wp (clipToUnitCircle E (m_bdyIDx (mingroc A)) (c_axpy E wp s (dw A)))"

text \<open>Line 116: the rows \<^verbatim>\<open>(Re w, Im w, 0)\<close>.\<close>

definition lift3D :: "CplxVector \<Rightarrow> (scalar \<times> scalar \<times> scalar) list" where
  "lift3D ws = map (\<lambda>z. (fst z, snd z, Fin 0)) ws"

text \<open>Lines 108 to 126.\<close>

definition validStep :: "externals \<Rightarrow> 'n ls_args \<Rightarrow> CplxVector \<Rightarrow> CplxVector \<Rightarrow> bool" where
  "validStep E A mu ws =
     (let v = list_all (\<lambda>z. s_less (c_abs E z) (Fin 1)) mu
            \<and> list_all (\<lambda>z. s_le (c_abs E z) (Fin 1)) ws
      in if checkSelfIntersections (param A)
         then (let intersects = find_self_intersections E (lift3D ws) (m_F (mingroc A))
               in v \<and> \<not> intersects)
         else v)"

text \<open>Lines 132 to 148, and again lines 198 to 213: the three checks in front of
  \<^verbatim>\<open>step *= width\<close>.\<close>

definition shrink_or_throw ::
  "externals \<Rightarrow> MINGROCParam \<Rightarrow> int \<Rightarrow> scalar \<Rightarrow> ls_state \<Rightarrow> control"
where
  "shrink_or_throw E P iter width st =
     (if maxLineSearch P \<le> iter then Throw RuntimeError_MaxIterations st
      else if s_less (step_ref st) (minStep P) then Throw RuntimeError_StepTooSmall st
      else if s_less (maxStep P) (step_ref st) then Throw RuntimeError_StepTooLarge st
      else Continue (st\<lparr>step_ref := s_mul E (step_ref st) width\<rparr>))"

definition mk_trial :: "externals \<Rightarrow> 'n ls_args \<Rightarrow> Vector \<Rightarrow> CplxVector \<Rightarrow> int \<Rightarrow> scalar \<Rightarrow> trial" where
  "mk_trial E A xp wp iter s =
     (let mu = trial_mu E A xp s; ws = trial_w E A wp s; v = validStep E A mu ws
      in \<lparr>t_iter = iter, t_step = s, t_x = trial_x E A xp s, t_mu = mu, t_w = ws, t_valid = v,
          t_energy = (if v then Some (calculateEnergy (mingroc A) mu ws (NNI A)
                                        (calcGrowthEnergy A) (calcMuEnergy A))
                      else None)\<rparr>)"

text \<open>Lines 88 to 213: one pass through the loop body.\<close>

definition loop_body ::
  "externals \<Rightarrow> 'n ls_args \<Rightarrow> Vector \<Rightarrow> CplxVector \<Rightarrow> scalar \<Rightarrow> scalar \<Rightarrow> int \<Rightarrow> ls_state \<Rightarrow> control"
where
  "loop_body E A xp wp fx_init test_decr iter st =
     (let x1 = trial_x E A xp (step_ref st);
          mu = trial_mu E A xp (step_ref st);
          w1 = trial_w E A wp (step_ref st);
          st1 = st\<lparr>x_ref := x1, w_ref := w1\<rparr>
      in if \<not> validStep E A mu w1 then shrink_or_throw E (param A) iter dec st1
         else
           (let fx1 = calculateEnergy (mingroc A) mu w1 (NNI A)
                        (calcGrowthEnergy A) (calcMuEnergy A);
                st2 = st1\<lparr>fx_ref := fx1\<rparr>
            in if isnan fx1 \<or> isinf fx1 then shrink_or_throw E (param A) iter dec st2
               else if lineSearchTermination (param A) = LINE_SEARCH_TERMINATION_NONE
                 then Break st2
               else if s_less fx_init fx1 then shrink_or_throw E (param A) iter dec st2
               else if lineSearchTermination (param A) = LINE_SEARCH_TERMINATION_DECREASE
                 then Break st2
               else if s_less (s_add E fx_init (s_mul E (step_ref st) test_decr)) fx1
                 then shrink_or_throw E (param A) iter dec st2
               else if lineSearchTermination (param A) = LINE_SEARCH_TERMINATION_ARMIJO
                 then Break st2
               else Throw InvalidArgument_Termination st2))"

text \<open>Line 86: \<^verbatim>\<open>for (int iter = 0; iter <= param.maxLineSearch; iter++)\<close>. The result is how
  the loop ends, the references at that moment, and the trials in order.\<close>

function loop ::
  "externals \<Rightarrow> 'n ls_args \<Rightarrow> Vector \<Rightarrow> CplxVector \<Rightarrow> scalar \<Rightarrow> scalar \<Rightarrow> int \<Rightarrow> ls_state
     \<Rightarrow> outcome \<times> ls_state \<times> trial list"
where
  "loop E A xp wp fx_init test_decr iter st =
     (if iter \<le> maxLineSearch (param A) then
        (let t = mk_trial E A xp wp iter (step_ref st) in
         case loop_body E A xp wp fx_init test_decr iter st of
           Break st' \<Rightarrow> (Returned, st', [t])
         | Throw e st' \<Rightarrow> (Raised e, st', [t])
         | Continue st' \<Rightarrow>
             (case loop E A xp wp fx_init test_decr (iter + 1) st' of
                (out, stf, ts) \<Rightarrow> (out, stf, t # ts)))
      else (Returned, st, []))"
  by pat_completeness auto
termination
  by (relation "measure (\<lambda>(E, A, xp, wp, fx_init, test_decr, iter, st).
        nat (maxLineSearch (param A) + 1 - iter))") auto

declare loop.simps [simp del]

text \<open>Lines 47 to 61 and the loop. At lines 48 and 49 the exception object is built and
  dropped: there is no \<^verbatim>\<open>throw\<close>, so the statement has no effect.\<close>

definition LineSearch :: "externals \<Rightarrow> 'n ls_args \<Rightarrow> ls_state \<Rightarrow> outcome \<times> ls_state \<times> trial list" where
  "LineSearch E A st =
     (let dropped = (if s_less (step_ref st) (Fin 0) then [InvalidArgument_StepPositive] else []);
          xp = x_ref st;
          wp = w_ref st;
          fx_init = fx_ref st;
          dg_init = dot E (grad A) (drt A)
      in if s_less (Fin 0) dg_init then (Raised LogicError_NotDescent, st, [])
         else loop E A xp wp fx_init (s_mul E (ftol (param A)) dg_init) 0 st)"

subsection \<open>Notions used to state the properties\<close>

text \<open>The energy the reference \<^verbatim>\<open>fx\<close> holds after a sequence of passes: the result of the
  last call of the evaluator, or the initial value when it was never called.\<close>

definition last_energy :: "scalar \<Rightarrow> trial list \<Rightarrow> scalar" where
  "last_energy f ts = foldl (\<lambda>f' t. case t_energy t of None \<Rightarrow> f' | Some e \<Rightarrow> e) f ts"

text \<open>A trial is rejected when its pass reaches one of the four assignments
  \<^verbatim>\<open>width = dec\<close> (lines 130, 163, 172 and 181).\<close>

definition rejected :: "externals \<Rightarrow> 'n ls_args \<Rightarrow> scalar \<Rightarrow> scalar \<Rightarrow> trial \<Rightarrow> bool" where
  "rejected E A fx_init test_decr t =
     (case t_energy t of
        None \<Rightarrow> True
      | Some e \<Rightarrow>
          isnan e \<or> isinf e \<or>
          (lineSearchTermination (param A) \<noteq> LINE_SEARCH_TERMINATION_NONE \<and>
             (s_less fx_init e \<or>
              (lineSearchTermination (param A) \<noteq> LINE_SEARCH_TERMINATION_DECREASE \<and>
               s_less (s_add E fx_init (s_mul E (t_step t) test_decr)) e))))"

text \<open>The bound \<^verbatim>\<open>fx_init + step * test_decr\<close> of the sufficient-decrease test as the code
  computes it for a call, with \<^verbatim>\<open>test_decr = param.ftol * dg_init\<close> of line 61.\<close>

definition armijo_bound :: "externals \<Rightarrow> 'n ls_args \<Rightarrow> ls_state \<Rightarrow> scalar \<Rightarrow> scalar" where
  "armijo_bound E A st s =
     s_add E (fx_ref st) (s_mul E s (s_mul E (ftol (param A)) (dot E (grad A) (drt A))))"

text \<open>The same bound read in real arithmetic, without rounding.\<close>

definition exact_bound :: "real \<Rightarrow> real \<Rightarrow> real \<Rightarrow> real \<Rightarrow> real" where
  "exact_bound fx_init s ftol' dg_init = fx_init + s * ftol' * dg_init"

text \<open>Halving a finite value that is not negative gives a finite value between 0 and it, in
  every binary floating-point arithmetic.\<close>

definition halving_exact :: "'z scalar_arith_scheme \<Rightarrow> bool" where
  "halving_exact R = (\<forall>a\<ge>0. \<exists>r. mul_fin R a (1 / 2) = Fin r \<and> 0 \<le> r \<and> r \<le> a)"






subsection \<open>A small instance\<close>

text \<open>Two vertices, no boundary vertex, vertex 0 pinned, \<^verbatim>\<open>Scalar = double\<close>. The distortion
  field is the real field with imaginary part 0, the energy is a given function of it, the
  projection has nothing to project, and no faces intersect. All numbers of the instance are
  values of \<^verbatim>\<open>double\<close>.\<close>

definition ex_mingroc :: "(CplxVector \<Rightarrow> scalar) \<Rightarrow> unit MINGROC" where
  "ex_mingroc e =
     \<lparr>m_F = [], m_bdyIDx = [], convertRealToComplex = map (\<lambda>a. (a, Fin 0)),
      calculateEnergy = (\<lambda>mu ws n g m. e mu)\<rparr>"

definition ex_externals :: externals where
  "ex_externals =
     \<lparr>add_fin = add_fin binary64, mul_fin = mul_fin binary64, abs_fin = abs_fin binary64,
      clipToUnitCircle = (\<lambda>idx ws. ws), find_self_intersections = (\<lambda>V F. False)\<rparr>"

definition ex_param :: "int \<Rightarrow> line_search_termination \<Rightarrow> MINGROCParam" where
  "ex_param n mode =
     \<lparr>ftol = Fin (1 / 8), maxLineSearch = n, minStep = Fin (1 / 1024), maxStep = Fin 1024,
      lineSearchTermination = mode, checkSelfIntersections = False\<rparr>"

definition ex_args :: "(CplxVector \<Rightarrow> scalar) \<Rightarrow> MINGROCParam \<Rightarrow> scalar \<Rightarrow> unit ls_args" where
  "ex_args e P g =
     \<lparr>mingroc = ex_mingroc e, param = P, NNI = (), fixIDx = [0],
      drt = [Fin 1, Fin 0], dw = [(Fin 1, Fin 0), (Fin (1 / 2), Fin 0)], grad = [g, Fin 0],
      calcGrowthEnergy = True, calcMuEnergy = True\<rparr>"

definition ex_state :: "scalar \<Rightarrow> scalar \<Rightarrow> ls_state" where
  "ex_state f s =
     \<lparr>fx_ref = f, x_ref = [Fin 0, Fin 0], w_ref = [(Fin 0, Fin 0), (Fin 0, Fin 0)],
      step_ref = s\<rparr>"

text \<open>The candidate of this instance for the step \<open>s\<close>, and the references that hold it.\<close>

definition ex_trial :: "int \<Rightarrow> real \<Rightarrow> bool \<Rightarrow> scalar option \<Rightarrow> trial" where
  "ex_trial i s v e =
     \<lparr>t_iter = i, t_step = Fin s, t_x = [Fin s, Fin 0],
      t_mu = [(Fin s, Fin 0), (Fin 0, Fin 0)], t_w = [(Fin 0, Fin 0), (Fin (s / 2), Fin 0)],
      t_valid = v, t_energy = e\<rparr>"

definition ex_final :: "scalar \<Rightarrow> real \<Rightarrow> ls_state" where
  "ex_final f s =
     \<lparr>fx_ref = f, x_ref = [Fin s, Fin 0], w_ref = [(Fin 0, Fin 0), (Fin (s / 2), Fin 0)],
      step_ref = Fin s\<rparr>"

section \<open>Properties\<close>

subsection \<open>One pass through the loop body\<close>

lemma mk_trial_sel [simp]:
  "t_iter (mk_trial E A xp wp iter s) = iter"
  "t_step (mk_trial E A xp wp iter s) = s"
  "t_x (mk_trial E A xp wp iter s) = trial_x E A xp s"
  "t_mu (mk_trial E A xp wp iter s) = trial_mu E A xp s"
  "t_w (mk_trial E A xp wp iter s) = trial_w E A wp s"
  "t_valid (mk_trial E A xp wp iter s) = validStep E A (trial_mu E A xp s) (trial_w E A wp s)"
  "t_energy (mk_trial E A xp wp iter s) =
     (if validStep E A (trial_mu E A xp s) (trial_w E A wp s)
      then Some (calculateEnergy (mingroc A) (trial_mu E A xp s) (trial_w E A wp s) (NNI A)
                   (calcGrowthEnergy A) (calcMuEnergy A))
      else None)"
  by (simp_all add: mk_trial_def Let_def)

lemma loop_body_Continue:
  assumes "loop_body E A xp wp fi td iter st = Continue st'"
  shows "iter < maxLineSearch (param A)"
    and "\<not> s_less (step_ref st) (minStep (param A))"
    and "\<not> s_less (maxStep (param A)) (step_ref st)"
    and "step_ref st' = s_mul E (step_ref st) dec"
    and "x_ref st' = trial_x E A xp (step_ref st)"
    and "w_ref st' = trial_w E A wp (step_ref st)"
    and "fx_ref st' = (case t_energy (mk_trial E A xp wp iter (step_ref st)) of
                         None \<Rightarrow> fx_ref st | Some e \<Rightarrow> e)"
  using assms
  by (auto simp: loop_body_def shrink_or_throw_def Let_def split: if_splits)

lemma loop_body_Throw:
  assumes "loop_body E A xp wp fi td iter st = Throw e st'"
  shows "step_ref st' = step_ref st"
    and "x_ref st' = trial_x E A xp (step_ref st)"
    and "w_ref st' = trial_w E A wp (step_ref st)"
    and "fx_ref st' = (case t_energy (mk_trial E A xp wp iter (step_ref st)) of
                         None \<Rightarrow> fx_ref st | Some e \<Rightarrow> e)"
    and "e \<noteq> LogicError_NotDescent" and "e \<noteq> InvalidArgument_StepPositive"
  using assms
  by (auto simp: loop_body_def shrink_or_throw_def Let_def split: if_splits)

lemma loop_body_Break:
  assumes "loop_body E A xp wp fi td iter st = Break st'"
  shows "step_ref st' = step_ref st"
    and "x_ref st' = trial_x E A xp (step_ref st)"
    and "w_ref st' = trial_w E A wp (step_ref st)"
    and "t_energy (mk_trial E A xp wp iter (step_ref st)) = Some (fx_ref st')"
    and "\<not> isnan (fx_ref st')" and "\<not> isinf (fx_ref st')"
    and "lineSearchTermination (param A) = LINE_SEARCH_TERMINATION_ARMIJO \<Longrightarrow>
           \<not> s_less (s_add E fi (s_mul E (step_ref st') td)) (fx_ref st')"
  using assms
  by (auto simp: loop_body_def shrink_or_throw_def Let_def split: if_splits)


subsection \<open>The loop and its trials\<close>

lemma loop_cases [consumes 1, case_names Stop Break Throw Continue]:
  assumes "loop E A xp wp fi td iter st = (out, stf, ts)"
  obtains
    "\<not> iter \<le> maxLineSearch (param A)" "out = Returned" "stf = st" "ts = []"
  | "iter \<le> maxLineSearch (param A)" "loop_body E A xp wp fi td iter st = Break stf"
      "out = Returned" "ts = [mk_trial E A xp wp iter (step_ref st)]"
  | e where "iter \<le> maxLineSearch (param A)" "loop_body E A xp wp fi td iter st = Throw e stf"
      "out = Raised e" "ts = [mk_trial E A xp wp iter (step_ref st)]"
  | st' ts' where "iter \<le> maxLineSearch (param A)"
      "loop_body E A xp wp fi td iter st = Continue st'"
      "loop E A xp wp fi td (iter + 1) st' = (out, stf, ts')"
      "ts = mk_trial E A xp wp iter (step_ref st) # ts'"
proof (cases "iter \<le> maxLineSearch (param A)")
  case False
  with assms have "out = Returned" "stf = st" "ts = []"
    by (simp_all add: loop.simps)
  with False show ?thesis using that(1) by blast
next
  case True
  show ?thesis
  proof (cases "loop_body E A xp wp fi td iter st")
    case (Break s)
    with True assms show ?thesis using that(2) by (simp add: loop.simps Let_def)
  next
    case (Throw e s)
    with True assms show ?thesis using that(3) by (simp add: loop.simps Let_def)
  next
    case (Continue s)
    obtain o' s' ts' where r: "loop E A xp wp fi td (iter + 1) s = (o', s', ts')"
      by (cases "loop E A xp wp fi td (iter + 1) s") auto
    with True Continue assms show ?thesis using that(4) [of s ts']
      by (simp add: loop.simps Let_def)
  qed
qed

lemma loop_nil:
  "loop E A xp wp fi td iter st = (out, stf, ts) \<Longrightarrow>
     (ts = []) = (\<not> iter \<le> maxLineSearch (param A))"
  by (erule loop_cases) auto

lemma loop_hd_step:
  "loop E A xp wp fi td iter st = (out, stf, ts) \<Longrightarrow> ts \<noteq> [] \<Longrightarrow>
     t_step (hd ts) = step_ref st"
  by (erule loop_cases) auto

lemma loop_length:
  "loop E A xp wp fi td iter st = (out, stf, ts) \<Longrightarrow>
     int (length ts) \<le> max 0 (maxLineSearch (param A) + 1 - iter)"
proof (induction E A xp wp fi td iter st arbitrary: ts rule: loop.induct)
  case (1 E A xp wp fi td iter st)
  from "1.prems" show ?case
  proof (cases rule: loop_cases)
    case (Continue st' ts')
    from "1.IH" [OF Continue(1) refl Continue(2) Continue(3)] Continue(1,4)
    show ?thesis by simp
  qed auto
qed

lemma loop_trials:
  "loop E A xp wp fi td iter st = (out, stf, ts) \<Longrightarrow> k < length ts \<Longrightarrow>
     ts ! k = mk_trial E A xp wp (iter + int k) (t_step (ts ! k))"
proof (induction E A xp wp fi td iter st arbitrary: ts k rule: loop.induct)
  case (1 E A xp wp fi td iter st)
  from "1.prems"(1) show ?case
  proof (cases rule: loop_cases)
    case (Continue st' ts')
    show ?thesis
    proof (cases k)
      case 0
      with Continue show ?thesis by simp
    next
      case (Suc j)
      with "1.prems"(2) Continue(4) have "j < length ts'" by simp
      from "1.IH" [OF Continue(1) refl Continue(2) Continue(3) this] Suc Continue(4)
      show ?thesis by (simp add: add.assoc)
    qed
  qed (use "1.prems"(2) in auto)
qed

lemma loop_chain:
  "loop E A xp wp fi td iter st = (out, stf, ts) \<Longrightarrow> Suc k < length ts \<Longrightarrow>
     \<not> s_less (t_step (ts ! k)) (minStep (param A)) \<and>
     \<not> s_less (maxStep (param A)) (t_step (ts ! k)) \<and>
     t_step (ts ! Suc k) = s_mul E (t_step (ts ! k)) dec"
proof (induction E A xp wp fi td iter st arbitrary: ts k rule: loop.induct)
  case (1 E A xp wp fi td iter st)
  from "1.prems"(1) show ?case
  proof (cases rule: loop_cases)
    case (Continue st' ts')
    note body = loop_body_Continue [OF Continue(2)]
    show ?thesis
    proof (cases k)
      case 0
      with "1.prems"(2) Continue(4) have "ts' \<noteq> []" by auto
      from loop_hd_step [OF Continue(3) this] this have "t_step (ts' ! 0) = step_ref st'"
        by (simp add: hd_conv_nth)
      with 0 Continue(4) body show ?thesis by simp
    next
      case (Suc j)
      with "1.prems"(2) Continue(4) have "Suc j < length ts'" by simp
      from "1.IH" [OF Continue(1) refl Continue(2) Continue(3) this] Suc Continue(4)
      show ?thesis by simp
    qed
  qed (use "1.prems"(2) in auto)
qed

lemma last_energy_Cons:
  "last_energy f (t # ts) = last_energy (case t_energy t of None \<Rightarrow> f | Some e \<Rightarrow> e) ts"
  by (simp add: last_energy_def)

lemma loop_final:
  "loop E A xp wp fi td iter st = (out, stf, ts) \<Longrightarrow> ts \<noteq> [] \<Longrightarrow>
     x_ref stf = t_x (last ts) \<and> w_ref stf = t_w (last ts) \<and> step_ref stf = t_step (last ts)"
proof (induction E A xp wp fi td iter st arbitrary: ts rule: loop.induct)
  case (1 E A xp wp fi td iter st)
  from "1.prems"(1) show ?case
  proof (cases rule: loop_cases)
    case Stop
    with "1.prems"(2) show ?thesis by simp
  next
    case Break
    with loop_body_Break [OF Break(2)] show ?thesis by simp
  next
    case (Throw e)
    with loop_body_Throw [OF Throw(2)] show ?thesis by simp
  next
    case (Continue st' ts')
    from Continue(3) have "ts' \<noteq> []"
      using loop_nil [OF Continue(3)] Continue(1) loop_body_Continue(1) [OF Continue(2)] by simp
    from "1.IH" [OF Continue(1) refl Continue(2) Continue(3) this] this Continue(4)
    show ?thesis by simp
  qed
qed

lemma loop_fx:
  "loop E A xp wp fi td iter st = (out, stf, ts) \<Longrightarrow>
     fx_ref stf = last_energy (fx_ref st) ts"
proof (induction E A xp wp fi td iter st arbitrary: ts rule: loop.induct)
  case (1 E A xp wp fi td iter st)
  from "1.prems"(1) show ?case
  proof (cases rule: loop_cases)
    case Stop
    then show ?thesis by (simp add: last_energy_def)
  next
    case Break
    with loop_body_Break(4) [OF Break(2)] show ?thesis by (simp add: last_energy_def)
  next
    case (Throw e)
    with loop_body_Throw(4) [OF Throw(2)] show ?thesis by (simp add: last_energy_def)
  next
    case (Continue st' ts')
    from "1.IH" [OF Continue(1) refl Continue(2) Continue(3)] Continue(4)
      loop_body_Continue(7) [OF Continue(2)]
    show ?thesis by (simp add: last_energy_Cons)
  qed
qed

subsection \<open>The call, rejection and acceptance\<close>

lemma LineSearch_raise:
  "s_less (Fin 0) (dot E (grad A) (drt A)) \<Longrightarrow>
     LineSearch E A st = (Raised LogicError_NotDescent, st, [])"
  by (simp add: LineSearch_def Let_def)

lemma LineSearch_loop:
  "\<not> s_less (Fin 0) (dot E (grad A) (drt A)) \<Longrightarrow>
     LineSearch E A st =
       loop E A (x_ref st) (w_ref st) (fx_ref st)
         (s_mul E (ftol (param A)) (dot E (grad A) (drt A))) 0 st"
  by (simp add: LineSearch_def Let_def)

lemma loop_Raised:
  "loop E A xp wp fi td iter st = (Raised e, stf, ts) \<Longrightarrow>
     ts \<noteq> [] \<and> e \<noteq> LogicError_NotDescent \<and> e \<noteq> InvalidArgument_StepPositive"
proof (induction E A xp wp fi td iter st arbitrary: ts rule: loop.induct)
  case (1 E A xp wp fi td iter st)
  from "1.prems" show ?case
  proof (cases rule: loop_cases)
    case (Throw e')
    with loop_body_Throw(5,6) [OF Throw(2)] show ?thesis by simp
  next
    case (Continue st' ts')
    from "1.IH" [OF Continue(1) refl Continue(2) Continue(3)] Continue(4)
    show ?thesis by simp
  qed simp_all
qed

lemma loop_body_rejected:
  assumes "rejected E A fi td (mk_trial E A xp wp iter (step_ref st))"
  shows "loop_body E A xp wp fi td iter st =
           shrink_or_throw E (param A) iter dec
             (st\<lparr>x_ref := trial_x E A xp (step_ref st), w_ref := trial_w E A wp (step_ref st),
                 fx_ref := (case t_energy (mk_trial E A xp wp iter (step_ref st)) of
                              None \<Rightarrow> fx_ref st | Some e \<Rightarrow> e)\<rparr>)"
  using assms
  by (auto simp: rejected_def loop_body_def Let_def split: if_splits)

lemma loop_body_Break_not_rejected:
  assumes "loop_body E A xp wp fi td iter st = Break st'"
  shows "\<not> rejected E A fi td (mk_trial E A xp wp iter (step_ref st))"
  using assms
  by (auto simp: rejected_def loop_body_def shrink_or_throw_def Let_def split: if_splits)

lemma shrink_or_throw_budget:
  "maxLineSearch P \<le> iter \<Longrightarrow>
     shrink_or_throw E P iter width st = Throw RuntimeError_MaxIterations st"
  by (simp add: shrink_or_throw_def)

lemma loop_last_rejected:
  "loop E A xp wp fi td iter st = (out, stf, ts) \<Longrightarrow> ts \<noteq> [] \<Longrightarrow>
     rejected E A fi td (last ts) \<Longrightarrow> t_iter (last ts) = maxLineSearch (param A) \<Longrightarrow>
     out = Raised RuntimeError_MaxIterations"
proof (induction E A xp wp fi td iter st arbitrary: ts rule: loop.induct)
  case (1 E A xp wp fi td iter st)
  from "1.prems"(1) show ?case
  proof (cases rule: loop_cases)
    case Stop
    with "1.prems"(2) show ?thesis by simp
  next
    case Break
    with loop_body_Break_not_rejected [OF Break(2)] "1.prems"(3) show ?thesis by simp
  next
    case (Throw e)
    from Throw(4) "1.prems"(3,4) have r: "rejected E A fi td (mk_trial E A xp wp iter (step_ref st))"
      and m: "maxLineSearch (param A) \<le> iter" by simp_all
    from Throw(2) show ?thesis
      unfolding loop_body_rejected [OF r] shrink_or_throw_budget [OF m] using Throw(3) by simp
  next
    case (Continue st' ts')
    have "ts' \<noteq> []"
      using loop_nil [OF Continue(3)] loop_body_Continue(1) [OF Continue(2)] by simp
    with "1.IH" [OF Continue(1) refl Continue(2) Continue(3) this] "1.prems"(3,4) Continue(4)
    show ?thesis by simp
  qed
qed

lemma loop_Returned:
  "loop E A xp wp fi td iter st = (Returned, stf, ts) \<Longrightarrow> ts \<noteq> [] \<Longrightarrow>
     t_energy (last ts) = Some (fx_ref stf) \<and> \<not> isnan (fx_ref stf) \<and> \<not> isinf (fx_ref stf) \<and>
     (lineSearchTermination (param A) = LINE_SEARCH_TERMINATION_ARMIJO \<longrightarrow>
        \<not> s_less (s_add E fi (s_mul E (step_ref stf) td)) (fx_ref stf))"
proof (induction E A xp wp fi td iter st arbitrary: ts rule: loop.induct)
  case (1 E A xp wp fi td iter st)
  from "1.prems"(1) show ?case
  proof (cases rule: loop_cases)
    case Stop
    with "1.prems"(2) show ?thesis by simp
  next
    case Break
    with loop_body_Break [OF Break(2)] show ?thesis by simp
  next
    case (Continue st' ts')
    have "ts' \<noteq> []"
      using loop_nil [OF Continue(3)] loop_body_Continue(1) [OF Continue(2)] by simp
    with "1.IH" [OF Continue(1) refl Continue(2) Continue(3) this] Continue(4)
    show ?thesis by simp
  qed simp
qed

lemma not_less_le:
  "\<not> isnan a \<Longrightarrow> \<not> isinf a \<Longrightarrow> \<not> isnan b \<Longrightarrow> \<not> s_less b a \<Longrightarrow> s_le a b"
  by (cases a; cases b) (simp_all add: isnan_def isinf_def)

lemma length_pin [simp]: "length (pin idx wp w0) = length w0"
  unfolding pin_def by (induction idx arbitrary: w0) simp_all

lemma pin_snoc: "pin (idx @ [j]) wp w0 = (pin idx wp w0)[j := wp ! j]"
  by (simp add: pin_def)

lemma pin_nth:
  "i \<in> set idx \<Longrightarrow> i < length w0 \<Longrightarrow> pin idx wp w0 ! i = wp ! i"
proof (induction idx rule: rev_induct)
  case Nil
  then show ?case by simp
next
  case (snoc j idx)
  show ?case
  proof (cases "i = j")
    case True
    with snoc.prems(2) show ?thesis by (simp add: pin_snoc)
  next
    case False
    with snoc show ?thesis by (simp add: pin_snoc)
  qed
qed

lemma length_c_axpy [simp]: "length (c_axpy E wp s d) = min (length wp) (length d)"
  by (simp add: c_axpy_def)


lemma loop_iter:
  "loop E A xp wp fi td iter st = (out, stf, ts) \<Longrightarrow> k < length ts \<Longrightarrow>
     t_iter (ts ! k) = iter + int k"
  using loop_trials [of E A xp wp fi td iter st out stf ts k]
  by (metis mk_trial_sel(1))




lemma LineSearch_trial:
  assumes "LineSearch E A st = (out, stf, ts)" and "t \<in> set ts"
  shows "t = mk_trial E A (x_ref st) (w_ref st) (t_iter t) (t_step t)"
proof (cases "s_less (Fin 0) (dot E (grad A) (drt A))")
  case True
  from assms show ?thesis unfolding LineSearch_raise [OF True] by simp
next
  case False
  from assms(1) have l: "loop E A (x_ref st) (w_ref st) (fx_ref st)
      (s_mul E (ftol (param A)) (dot E (grad A) (drt A))) 0 st = (out, stf, ts)"
    unfolding LineSearch_loop [OF False] .
  from assms(2) obtain k where k: "k < length ts" "t = ts ! k"
    by (auto simp: in_set_conv_nth)
  from loop_trials [OF l k(1)] loop_iter [OF l k(1)] k(2) show ?thesis by simp
qed

subsection \<open>The sequence of steps of a call\<close>

lemma shrink_nonneg:
  assumes "halving_exact E" and "\<not> isnan s" and "\<not> s_less s (Fin 0)"
  shows "s_le (s_mul E s dec) s" and "\<not> isnan (s_mul E s dec)" and "\<not> s_less (s_mul E s dec) (Fin 0)"
proof -
  have "s_le (s_mul E s dec) s \<and> \<not> isnan (s_mul E s dec) \<and> \<not> s_less (s_mul E s dec) (Fin 0)"
  proof (cases s)
    case (Fin a)
    with assms(3) have "0 \<le> a" by simp
    with assms(1) obtain r where "mul_fin E a (1 / 2) = Fin r" "0 \<le> r" "r \<le> a"
      unfolding halving_exact_def by blast
    with Fin show ?thesis by (simp add: dec_def isnan_def)
  qed (use assms(2,3) in \<open>simp_all add: dec_def isnan_def\<close>)
  then show "s_le (s_mul E s dec) s" and "\<not> isnan (s_mul E s dec)"
    and "\<not> s_less (s_mul E s dec) (Fin 0)"
    by simp_all
qed

lemma LineSearch_steps:
  assumes "LineSearch E A st = (out, stf, ts)"
  shows "ts \<noteq> [] \<Longrightarrow> t_step (ts ! 0) = step_ref st"
    and "Suc k < length ts \<Longrightarrow> t_step (ts ! Suc k) = s_mul E (t_step (ts ! k)) dec"
    and "ts \<noteq> [] \<Longrightarrow> step_ref stf = t_step (last ts)"
proof -
  have "(ts \<noteq> [] \<longrightarrow> t_step (ts ! 0) = step_ref st) \<and>
        (Suc k < length ts \<longrightarrow> t_step (ts ! Suc k) = s_mul E (t_step (ts ! k)) dec) \<and>
        (ts \<noteq> [] \<longrightarrow> step_ref stf = t_step (last ts))"
  proof (cases "s_less (Fin 0) (dot E (grad A) (drt A))")
    case True
    from assms show ?thesis unfolding LineSearch_raise [OF True] by simp
  next
    case False
    from assms have l: "loop E A (x_ref st) (w_ref st) (fx_ref st)
        (s_mul E (ftol (param A)) (dot E (grad A) (drt A))) 0 st = (out, stf, ts)"
      unfolding LineSearch_loop [OF False] .
    from loop_hd_step [OF l] loop_chain [OF l] loop_final [OF l] show ?thesis
      by (simp add: hd_conv_nth)
  qed
  then show "ts \<noteq> [] \<Longrightarrow> t_step (ts ! 0) = step_ref st"
    and "Suc k < length ts \<Longrightarrow> t_step (ts ! Suc k) = s_mul E (t_step (ts ! k)) dec"
    and "ts \<noteq> [] \<Longrightarrow> step_ref stf = t_step (last ts)"
    by simp_all
qed

text \<open>From an initial step that is neither negative nor NaN the steps never increase.\<close>

lemma steps_nonincreasing:
  assumes "LineSearch E A st = (out, stf, ts)" and "halving_exact E"
    and "\<not> isnan (step_ref st)" and "\<not> s_less (step_ref st) (Fin 0)"
    and "Suc k < length ts"
  shows "s_le (t_step (ts ! Suc k)) (t_step (ts ! k))"
proof -
  have inv: "j < length ts \<Longrightarrow> \<not> isnan (t_step (ts ! j)) \<and> \<not> s_less (t_step (ts ! j)) (Fin 0)"
    for j
  proof (induction j)
    case 0
    then have "ts \<noteq> []" by auto
    from LineSearch_steps(1) [OF assms(1) this] assms(3,4) show ?case by simp
  next
    case (Suc j)
    then have "\<not> isnan (t_step (ts ! j))" "\<not> s_less (t_step (ts ! j)) (Fin 0)" by simp_all
    from shrink_nonneg(2,3) [OF assms(2) this] LineSearch_steps(2) [OF assms(1) Suc.prems]
    show ?case by simp
  qed
  from assms(5) have "k < length ts" by simp
  from inv [OF this] have "\<not> isnan (t_step (ts ! k))" "\<not> s_less (t_step (ts ! k)) (Fin 0)"
    by simp_all
  from shrink_nonneg(1) [OF assms(2) this] LineSearch_steps(2) [OF assms(1,5)] show ?thesis by simp
qed

subsection \<open>Evaluation of the instance\<close>

text \<open>The unit in the last place of a value with \<open>2\<^sup>k \<le> |x| < 2\<^sup>k\<^sup>+\<^sup>1\<close>.\<close>

lemma ulp64_window:
  assumes "power_int 2 k \<le> \<bar>x\<bar>" and "\<bar>x\<bar> < power_int 2 (k + 1)" and "- 1022 \<le> k"
  shows "ulp64 x = power_int 2 (k - 52)"
proof -
  have p: "0 < power_int (2::real) k" by simp
  with assms(1) have pos: "0 < \<bar>x\<bar>" by linarith
  have a: "(2::real) powr real_of_int k = power_int 2 k"
    by (simp add: powr_real_of_int')
  have "(2::real) powr real_of_int (k + 1) = power_int 2 (k + 1)"
    by (rule powr_real_of_int') simp_all
  then have b: "(2::real) powr (real_of_int k + 1) = power_int 2 (k + 1)" by simp
  have "\<lfloor>log 2 \<bar>x\<bar>\<rfloor> = k"
    using assms(1,2) pos by (simp add: floor_log_eq_powr_iff a b)
  with assms(3) show ?thesis by (simp add: ulp64_def)
qed

lemmas ulp64_eval =
  ulp64_window [of "- 61"] ulp64_window [of "- 60"]
  ulp64_window [of "- 6"] ulp64_window [of "- 5"] ulp64_window [of "- 4"]
  ulp64_window [of "- 3"] ulp64_window [of "- 2"] ulp64_window [of "- 1"]
  ulp64_window [of 0] ulp64_window [of 1] ulp64_window [of 2] ulp64_window [of 3]
  ulp64_window [of 4]

lemma ex_externals_sel:
  "add_fin ex_externals a b = round64 (a + b)"
  "mul_fin ex_externals a b = round64 (a * b)"
  "abs_fin ex_externals p q =
     (if q = 0 then Fin \<bar>p\<bar> else if p = 0 then Fin \<bar>q\<bar> else round64 (sqrt (p * p + q * q)))"
  "clipToUnitCircle ex_externals idx ws = ws"
  "find_self_intersections ex_externals V F = False"
  by (simp_all add: ex_externals_def binary64_def)

lemmas binary64_eval = ex_externals_sel round64_def round64_real_def rne_def ulp64_eval

lemmas ls_eval = LineSearch_def loop.simps loop_body_def mk_trial_def trial_x_def trial_mu_def
  trial_w_def validStep_def shrink_or_throw_def pin_def lift3D_def v_axpy_def c_axpy_def dot_def
  dec_def isnan_def isinf_def Let_def ex_mingroc_def ex_param_def ex_args_def
  ex_state_def ex_trial_def ex_final_def binary64_eval

section \<open>The claims\<close>

subsection \<open>Negative initial step\<close>

text \<open>
  C1. A negative initial step is claimed to raise an invalid-argument error before any
  candidate is built. The statement at lines 48 and 49 has no \<^verbatim>\<open>throw\<close>: with the initial step
  \<open>-1/2\<close> and a descent direction the call builds the candidate for that step, evaluates it,
  accepts it and returns normally with the negative step.
\<close>

theorem C1_negative_step_not_raised:
  "s_less (step_ref (ex_state (Fin 10) (Fin (- 1 / 2)))) (Fin 0) \<and>
   LineSearch ex_externals
     (ex_args (\<lambda>mu. Fin 9) (ex_param 5 LINE_SEARCH_TERMINATION_ARMIJO) (Fin (- 1)))
     (ex_state (Fin 10) (Fin (- 1 / 2))) =
   (Returned,
    \<lparr>fx_ref = Fin 9, x_ref = [Fin (- 1 / 2), Fin 0],
     w_ref = [(Fin 0, Fin 0), (Fin (- 1 / 4), Fin 0)], step_ref = Fin (- 1 / 2)\<rparr>,
    [\<lparr>t_iter = 0, t_step = Fin (- 1 / 2), t_x = [Fin (- 1 / 2), Fin 0],
      t_mu = [(Fin (- 1 / 2), Fin 0), (Fin 0, Fin 0)],
      t_w = [(Fin 0, Fin 0), (Fin (- 1 / 4), Fin 0)], t_valid = True,
      t_energy = Some (Fin 9)\<rparr>])"
  by (simp add: ls_eval)

subsection \<open>The descent test\<close>

text \<open>
  C2, as stated, fails: with the directional derivative \<open>0\<close> nothing is raised; the loop
  runs and the first candidate is accepted.
\<close>

theorem C2_zero_derivative_counterexample:
  "s_le (Fin 0)
     (dot ex_externals (grad (ex_args (\<lambda>mu. Fin 9) (ex_param 5 LINE_SEARCH_TERMINATION_ARMIJO) (Fin 0)))
          (drt (ex_args (\<lambda>mu. Fin 9) (ex_param 5 LINE_SEARCH_TERMINATION_ARMIJO) (Fin 0)))) \<and>
   LineSearch ex_externals
     (ex_args (\<lambda>mu. Fin 9) (ex_param 5 LINE_SEARCH_TERMINATION_ARMIJO) (Fin 0))
     (ex_state (Fin 10) (Fin (1 / 2))) =
   (Returned,
    \<lparr>fx_ref = Fin 9, x_ref = [Fin (1 / 2), Fin 0],
     w_ref = [(Fin 0, Fin 0), (Fin (1 / 4), Fin 0)], step_ref = Fin (1 / 2)\<rparr>,
    [\<lparr>t_iter = 0, t_step = Fin (1 / 2), t_x = [Fin (1 / 2), Fin 0],
      t_mu = [(Fin (1 / 2), Fin 0), (Fin 0, Fin 0)],
      t_w = [(Fin 0, Fin 0), (Fin (1 / 4), Fin 0)], t_valid = True,
      t_energy = Some (Fin 9)\<rparr>])"
  by (simp add: ls_eval)

text \<open>
  C2, amended: the call raises the logic error, with the references untouched and no candidate
  built, exactly when the directional derivative is strictly positive; a derivative that is
  not greater than zero (zero, negative or NaN) never raises it.
\<close>

theorem C2_positive_derivative_raises:
  "(s_less (Fin 0) (dot E (grad A) (drt A)) \<longrightarrow>
      LineSearch E A st = (Raised LogicError_NotDescent, st, [])) \<and>
   (\<not> s_less (Fin 0) (dot E (grad A) (drt A)) \<longrightarrow>
      fst (LineSearch E A st) \<noteq> Raised LogicError_NotDescent)"
proof (intro conjI impI)
  assume "s_less (Fin 0) (dot E (grad A) (drt A))"
  then show "LineSearch E A st = (Raised LogicError_NotDescent, st, [])"
    by (rule LineSearch_raise)
next
  assume n: "\<not> s_less (Fin 0) (dot E (grad A) (drt A))"
  show "fst (LineSearch E A st) \<noteq> Raised LogicError_NotDescent"
  proof
    assume r: "fst (LineSearch E A st) = Raised LogicError_NotDescent"
    obtain out stf ts where l: "LineSearch E A st = (out, stf, ts)"
      by (cases "LineSearch E A st") auto
    with r have "out = Raised LogicError_NotDescent" by simp
    with l loop_Raised [of E A _ _ _ _ 0 st LogicError_NotDescent stf ts]
    show False unfolding LineSearch_loop [OF n] by simp
  qed
qed

theorem C2_positive_derivative_raises_witness:
  "s_less (Fin 0)
     (dot ex_externals (grad (ex_args (\<lambda>mu. Fin 9) (ex_param 5 LINE_SEARCH_TERMINATION_ARMIJO) (Fin 1)))
          (drt (ex_args (\<lambda>mu. Fin 9) (ex_param 5 LINE_SEARCH_TERMINATION_ARMIJO) (Fin 1)))) \<and>
   LineSearch ex_externals
     (ex_args (\<lambda>mu. Fin 9) (ex_param 5 LINE_SEARCH_TERMINATION_ARMIJO) (Fin 1))
     (ex_state (Fin 10) (Fin (1 / 2))) =
   (Raised LogicError_NotDescent, ex_state (Fin 10) (Fin (1 / 2)), []) \<and>
   \<not> s_less (Fin 0)
     (dot ex_externals (grad (ex_args (\<lambda>mu. Fin 9) (ex_param 5 LINE_SEARCH_TERMINATION_ARMIJO) (Fin (- 1))))
          (drt (ex_args (\<lambda>mu. Fin 9) (ex_param 5 LINE_SEARCH_TERMINATION_ARMIJO) (Fin (- 1))))) \<and>
   fst (LineSearch ex_externals
     (ex_args (\<lambda>mu. Fin 9) (ex_param 5 LINE_SEARCH_TERMINATION_ARMIJO) (Fin (- 1)))
     (ex_state (Fin 10) (Fin (1 / 2)))) \<noteq> Raised LogicError_NotDescent"
proof -
  have p: "s_less (Fin 0)
     (dot ex_externals (grad (ex_args (\<lambda>mu. Fin 9) (ex_param 5 LINE_SEARCH_TERMINATION_ARMIJO) (Fin 1)))
          (drt (ex_args (\<lambda>mu. Fin 9) (ex_param 5 LINE_SEARCH_TERMINATION_ARMIJO) (Fin 1))))"
    by (simp add: dot_def ex_args_def binary64_eval)
  have n: "\<not> s_less (Fin 0)
     (dot ex_externals (grad (ex_args (\<lambda>mu. Fin 9) (ex_param 5 LINE_SEARCH_TERMINATION_ARMIJO) (Fin (- 1))))
          (drt (ex_args (\<lambda>mu. Fin 9) (ex_param 5 LINE_SEARCH_TERMINATION_ARMIJO) (Fin (- 1)))))"
    by (simp add: dot_def ex_args_def binary64_eval)
  from p n
    C2_positive_derivative_raises [of ex_externals
      "ex_args (\<lambda>mu. Fin 9) (ex_param 5 LINE_SEARCH_TERMINATION_ARMIJO) (Fin 1)"
      "ex_state (Fin 10) (Fin (1 / 2))"]
    C2_positive_derivative_raises [of ex_externals
      "ex_args (\<lambda>mu. Fin 9) (ex_param 5 LINE_SEARCH_TERMINATION_ARMIJO) (Fin (- 1))"
      "ex_state (Fin 10) (Fin (1 / 2))"]
  show ?thesis by blast
qed

subsection \<open>Step bounds\<close>




subsection \<open>The termination tests\<close>



subsection \<open>Sufficient decrease\<close>

text \<open>
  C5, as stated, fails in three ways. With \<open>maxLineSearch = -1\<close> the loop body never runs: the
  call returns normally with \<open>fx\<close> and \<open>step\<close> as they were, and the initial energy \<open>10\<close> is
  above the bound. With the initial energy NaN the bound is NaN, the test \<^verbatim>\<open>fx > bound\<close> is
  false, and the first trial is accepted although \<open>9 \<le> NaN\<close> is false. With \<open>ftol = 2\<^sup>-\<^sup>6\<^sup>0\<close>,
  initial energy \<open>1\<close> and a trial energy \<open>1\<close> the bound computed in \<^verbatim>\<open>double\<close> is rounded to
  \<open>1\<close>, the trial is accepted, and \<open>1 \<le> 1 - 2\<^sup>-\<^sup>6\<^sup>1\<close> is false.
\<close>

theorem C5_armijo_counterexample:
  "LineSearch ex_externals
     (ex_args (\<lambda>mu. Fin 9) (ex_param (- 1) LINE_SEARCH_TERMINATION_ARMIJO) (Fin (- 1)))
     (ex_state (Fin 10) (Fin (1 / 2))) =
   (Returned, ex_state (Fin 10) (Fin (1 / 2)), []) \<and>
   \<not> s_le (Fin 10)
        (armijo_bound ex_externals
           (ex_args (\<lambda>mu. Fin 9) (ex_param (- 1) LINE_SEARCH_TERMINATION_ARMIJO) (Fin (- 1)))
           (ex_state (Fin 10) (Fin (1 / 2))) (Fin (1 / 2))) \<and>
   LineSearch ex_externals
     (ex_args (\<lambda>mu. Fin 9) (ex_param 5 LINE_SEARCH_TERMINATION_ARMIJO) (Fin (- 1)))
     (ex_state NaN (Fin (1 / 2))) =
   (Returned, ex_final (Fin 9) (1 / 2), [ex_trial 0 (1 / 2) True (Some (Fin 9))]) \<and>
   \<not> s_le (Fin 9)
        (armijo_bound ex_externals
           (ex_args (\<lambda>mu. Fin 9) (ex_param 5 LINE_SEARCH_TERMINATION_ARMIJO) (Fin (- 1)))
           (ex_state NaN (Fin (1 / 2))) (Fin (1 / 2))) \<and>
   LineSearch ex_externals
     (ex_args (\<lambda>mu. Fin 1)
        ((ex_param 5 LINE_SEARCH_TERMINATION_ARMIJO)\<lparr>ftol := Fin (1 / 2 ^ 60)\<rparr>) (Fin (- 1)))
     (ex_state (Fin 1) (Fin (1 / 2))) =
   (Returned, ex_final (Fin 1) (1 / 2), [ex_trial 0 (1 / 2) True (Some (Fin 1))]) \<and>
   dot ex_externals
     (grad (ex_args (\<lambda>mu. Fin 1)
        ((ex_param 5 LINE_SEARCH_TERMINATION_ARMIJO)\<lparr>ftol := Fin (1 / 2 ^ 60)\<rparr>) (Fin (- 1))))
     (drt (ex_args (\<lambda>mu. Fin 1)
        ((ex_param 5 LINE_SEARCH_TERMINATION_ARMIJO)\<lparr>ftol := Fin (1 / 2 ^ 60)\<rparr>) (Fin (- 1)))) =
   Fin (- 1) \<and>
   \<not> 1 \<le> exact_bound 1 (1 / 2) (1 / 2 ^ 60) (- 1)"
  by (simp add: ls_eval armijo_bound_def exact_bound_def)

text \<open>
  C5, amended: in mode ARMIJO with \<open>maxLineSearch \<ge> 0\<close>, a call that returns normally returns
  the energy and the step of its last trial, unchanged since the accepting test. The energy is
  finite and the test \<^verbatim>\<open>fx > fx_init + step * test_decr\<close>, with the bound as the code computes
  it in the arithmetic of \<^verbatim>\<open>Scalar\<close>, is false for them; so \<open>fx\<close> is at most that computed bound
  whenever the computed bound is not NaN.
\<close>

theorem C5_armijo_on_return:
  assumes "LineSearch E A st = (Returned, stf, ts)"
    and "lineSearchTermination (param A) = LINE_SEARCH_TERMINATION_ARMIJO"
    and "0 \<le> maxLineSearch (param A)"
  shows "\<not> s_less (armijo_bound E A st (step_ref stf)) (fx_ref stf) \<and>
         (\<not> isnan (armijo_bound E A st (step_ref stf)) \<longrightarrow>
            s_le (fx_ref stf) (armijo_bound E A st (step_ref stf))) \<and>
         \<not> isnan (fx_ref stf) \<and> \<not> isinf (fx_ref stf) \<and>
         ts \<noteq> [] \<and> step_ref stf = t_step (last ts) \<and>
         t_energy (last ts) = Some (fx_ref stf)"
proof (cases "s_less (Fin 0) (dot E (grad A) (drt A))")
  case True
  from assms(1) show ?thesis unfolding LineSearch_raise [OF True] by simp
next
  case False
  let ?td = "s_mul E (ftol (param A)) (dot E (grad A) (drt A))"
  from assms(1) have l: "loop E A (x_ref st) (w_ref st) (fx_ref st) ?td 0 st = (Returned, stf, ts)"
    unfolding LineSearch_loop [OF False] .
  from loop_nil [OF l] assms(3) have ne: "ts \<noteq> []" by simp
  from loop_Returned [OF l ne] assms(2)
  have en: "t_energy (last ts) = Some (fx_ref stf)"
    and fin: "\<not> isnan (fx_ref stf)" "\<not> isinf (fx_ref stf)"
    and acc: "\<not> s_less (armijo_bound E A st (step_ref stf)) (fx_ref stf)"
    by (simp_all add: armijo_bound_def)
  have "s_le (fx_ref stf) (armijo_bound E A st (step_ref stf))"
    if "\<not> isnan (armijo_bound E A st (step_ref stf))"
    using not_less_le [OF fin that acc] .
  with acc fin ne loop_final [OF l ne] en show ?thesis by simp
qed

theorem C5_armijo_on_return_witness:
  "LineSearch ex_externals
     (ex_args (\<lambda>mu. if mu = [(Fin (1 / 2), Fin 0), (Fin 0, Fin 0)] then Fin (319 / 32) else Fin 9)
        (ex_param 5 LINE_SEARCH_TERMINATION_ARMIJO) (Fin (- 1)))
     (ex_state (Fin 10) (Fin (1 / 2))) =
   (Returned, ex_final (Fin 9) (1 / 4),
    [ex_trial 0 (1 / 2) True (Some (Fin (319 / 32))), ex_trial 1 (1 / 4) True (Some (Fin 9))]) \<and>
   lineSearchTermination (ex_param 5 LINE_SEARCH_TERMINATION_ARMIJO) =
     LINE_SEARCH_TERMINATION_ARMIJO \<and>
   0 \<le> maxLineSearch (ex_param 5 LINE_SEARCH_TERMINATION_ARMIJO) \<and>
   armijo_bound ex_externals
     (ex_args (\<lambda>mu. if mu = [(Fin (1 / 2), Fin 0), (Fin 0, Fin 0)] then Fin (319 / 32) else Fin 9)
        (ex_param 5 LINE_SEARCH_TERMINATION_ARMIJO) (Fin (- 1)))
     (ex_state (Fin 10) (Fin (1 / 2))) (Fin (1 / 4)) = Fin (319 / 32) \<and>
   \<not> s_less (Fin (319 / 32)) (Fin 9) \<and>
   s_le (Fin 9) (Fin (319 / 32))"
proof -
  let ?A = "ex_args
     (\<lambda>mu. if mu = [(Fin (1 / 2), Fin 0), (Fin 0, Fin 0)] then Fin (319 / 32) else Fin 9)
     (ex_param 5 LINE_SEARCH_TERMINATION_ARMIJO) (Fin (- 1))"
  have e: "LineSearch ex_externals ?A (ex_state (Fin 10) (Fin (1 / 2))) =
   (Returned, ex_final (Fin 9) (1 / 4),
    [ex_trial 0 (1 / 2) True (Some (Fin (319 / 32))), ex_trial 1 (1 / 4) True (Some (Fin 9))])"
    by (simp add: ls_eval)
  have m: "lineSearchTermination (param ?A) = LINE_SEARCH_TERMINATION_ARMIJO"
    and b: "0 \<le> maxLineSearch (param ?A)"
    by (simp_all add: ex_args_def ex_param_def)
  have a: "armijo_bound ex_externals ?A (ex_state (Fin 10) (Fin (1 / 2))) (Fin (1 / 4)) =
      Fin (319 / 32)"
    by (simp add: armijo_bound_def ex_args_def ex_param_def ex_state_def dot_def binary64_eval)
  from C5_armijo_on_return [OF e m b] e a show ?thesis
    by (simp add: ex_final_def ex_param_def isnan_def)
qed

subsection \<open>Feasibility\<close>



subsection \<open>Monotone steps\<close>

text \<open>
  C7. The steps of a call are claimed never to increase. Every retry does multiply the step
  by \<open>1/2\<close> and acceptance returns the step of the accepted trial, but the negative initial step
  \<open>-1\<close> is not rejected (see C1): with \<open>minStep = -2\<close> its infeasible first trial is followed by
  a trial with the step \<open>-1/2\<close>, which is greater, and that step is returned.
\<close>

theorem C7_negative_step_increases:
  "LineSearch ex_externals
     (ex_args (\<lambda>mu. Fin 9)
        ((ex_param 5 LINE_SEARCH_TERMINATION_NONE)\<lparr>minStep := Fin (- 2)\<rparr>) (Fin (- 1)))
     (ex_state (Fin 10) (Fin (- 1))) =
   (Returned, ex_final (Fin 9) (- 1 / 2),
    [ex_trial 0 (- 1) False None, ex_trial 1 (- 1 / 2) True (Some (Fin 9))]) \<and>
   s_less (t_step (ex_trial 0 (- 1) False None))
     (t_step (ex_trial 1 (- 1 / 2) True (Some (Fin 9))))"
  by (simp add: ls_eval)

subsection \<open>Pinned vertices\<close>

text \<open>
  C8. In every trial of a call the embedding is the step update, then the projection of the
  boundary entries, then the pinning; at every pinned index inside the vector it equals the
  embedding the call started with. The vectors \<open>w\<close> and \<open>dw\<close> have the same size, and the
  projection keeps the size of its argument.
\<close>

theorem C8_pinned_vertices:
  assumes "LineSearch E A st = (out, stf, ts)" and "t \<in> set ts"
    and "i \<in> set (fixIDx A)" and "i < length (w_ref st)"
    and "length (dw A) = length (w_ref st)"
    and "\<forall>idx ws. length (clipToUnitCircle E idx ws) = length ws"
  shows "t_w t ! i = w_ref st ! i \<and>
         t_w t = pin (fixIDx A) (w_ref st)
                   (clipToUnitCircle E (m_bdyIDx (mingroc A))
                      (c_axpy E (w_ref st) (t_step t) (dw A)))"
proof -
  from LineSearch_trial [OF assms(1,2)]
  have t: "t = mk_trial E A (x_ref st) (w_ref st) (t_iter t) (t_step t)" .
  have w: "t_w t = trial_w E A (w_ref st) (t_step t)" by (subst t) simp
  have "i < length (clipToUnitCircle E (m_bdyIDx (mingroc A))
                      (c_axpy E (w_ref st) (t_step t) (dw A)))"
    using assms(4,5,6) by simp
  from pin_nth [OF assms(3) this] w show ?thesis by (simp add: trial_w_def)
qed

theorem C8_pinned_vertices_witness:
  "LineSearch ex_externals
     (ex_args (\<lambda>mu. Fin 9) (ex_param 5 LINE_SEARCH_TERMINATION_ARMIJO) (Fin (- 1)))
     (ex_state (Fin 10) (Fin (1 / 2))) =
   (Returned, ex_final (Fin 9) (1 / 2), [ex_trial 0 (1 / 2) True (Some (Fin 9))]) \<and>
   ex_trial 0 (1 / 2) True (Some (Fin 9)) \<in> set [ex_trial 0 (1 / 2) True (Some (Fin 9))] \<and>
   0 \<in> set (fixIDx (ex_args (\<lambda>mu. Fin 9) (ex_param 5 LINE_SEARCH_TERMINATION_ARMIJO) (Fin (- 1)))) \<and>
   0 < length (w_ref (ex_state (Fin 10) (Fin (1 / 2)))) \<and>
   length (dw (ex_args (\<lambda>mu. Fin 9) (ex_param 5 LINE_SEARCH_TERMINATION_ARMIJO) (Fin (- 1)))) =
     length (w_ref (ex_state (Fin 10) (Fin (1 / 2)))) \<and>
   (\<forall>idx ws. length (clipToUnitCircle ex_externals idx ws) = length ws) \<and>
   c_axpy ex_externals (w_ref (ex_state (Fin 10) (Fin (1 / 2)))) (Fin (1 / 2))
     (dw (ex_args (\<lambda>mu. Fin 9) (ex_param 5 LINE_SEARCH_TERMINATION_ARMIJO) (Fin (- 1)))) ! 0 =
     (Fin (1 / 2), Fin 0) \<and>
   t_w (ex_trial 0 (1 / 2) True (Some (Fin 9))) ! 0 = (Fin 0, Fin 0) \<and>
   w_ref (ex_state (Fin 10) (Fin (1 / 2))) ! 0 = (Fin 0, Fin 0)"
proof -
  let ?A = "ex_args (\<lambda>mu. Fin 9) (ex_param 5 LINE_SEARCH_TERMINATION_ARMIJO) (Fin (- 1))"
  let ?st = "ex_state (Fin 10) (Fin (1 / 2))"
  let ?t = "ex_trial 0 (1 / 2) True (Some (Fin 9))"
  have e: "LineSearch ex_externals ?A ?st = (Returned, ex_final (Fin 9) (1 / 2), [?t])"
    by (simp add: ls_eval)
  have m: "?t \<in> set [?t]" by simp
  have i: "0 \<in> set (fixIDx ?A)" by (simp add: ex_args_def)
  have b: "0 < length (w_ref ?st)" by (simp add: ex_state_def)
  have d: "length (dw ?A) = length (w_ref ?st)" by (simp add: ex_state_def ex_args_def)
  have c: "\<forall>idx ws. length (clipToUnitCircle ex_externals idx ws) = length ws"
    by (simp add: ex_externals_def)
  from C8_pinned_vertices [OF e m i b d c] e m i b d c show ?thesis
    by (simp add: ls_eval)
qed

subsection \<open>Iteration budget\<close>

text \<open>
  C9. A call runs at most \<open>maxLineSearch + 1\<close> passes (none when that number is not
  positive), numbered from 0. When the trial of pass
  number \<open>maxLineSearch\<close> is rejected (infeasible, or turned down by the termination tests),
  the call ends with the iteration-budget error. With \<open>maxLineSearch = 0\<close> an infeasible first
  candidate gives that error at once: it is the only trial and its energy is never evaluated.
\<close>

theorem C9_iteration_budget:
  assumes "LineSearch E A st = (out, stf, ts)"
  shows "length ts \<le> nat (maxLineSearch (param A) + 1) \<and>
         (\<forall>k<length ts. t_iter (ts ! k) = int k) \<and>
         (ts \<noteq> [] \<and> t_iter (last ts) = maxLineSearch (param A) \<and>
          rejected E A (fx_ref st) (s_mul E (ftol (param A)) (dot E (grad A) (drt A))) (last ts)
            \<longrightarrow> out = Raised RuntimeError_MaxIterations) \<and>
         (maxLineSearch (param A) = 0 \<and> ts \<noteq> [] \<and> \<not> t_valid (hd ts)
            \<longrightarrow> out = Raised RuntimeError_MaxIterations \<and> length ts = 1 \<and>
                t_energy (hd ts) = None)"
proof (cases "s_less (Fin 0) (dot E (grad A) (drt A))")
  case True
  from assms show ?thesis unfolding LineSearch_raise [OF True] by simp
next
  case False
  let ?td = "s_mul E (ftol (param A)) (dot E (grad A) (drt A))"
  from assms have l: "loop E A (x_ref st) (w_ref st) (fx_ref st) ?td 0 st = (out, stf, ts)"
    unfolding LineSearch_loop [OF False] .
  have len: "length ts \<le> nat (maxLineSearch (param A) + 1)"
    using loop_length [OF l] by simp
  have it: "\<forall>k<length ts. t_iter (ts ! k) = int k"
    using loop_iter [OF l] by simp
  have rej: "out = Raised RuntimeError_MaxIterations"
    if "ts \<noteq> []" "t_iter (last ts) = maxLineSearch (param A)"
       "rejected E A (fx_ref st) ?td (last ts)"
    using loop_last_rejected [OF l that(1) that(3) that(2)] .
  have zero: "out = Raised RuntimeError_MaxIterations \<and> length ts = 1 \<and> t_energy (hd ts) = None"
    if z: "maxLineSearch (param A) = 0" and ne: "ts \<noteq> []" and nv: "\<not> t_valid (hd ts)"
  proof -
    from len z ne have one: "length ts = 1" by (cases ts) simp_all
    then have hl: "hd ts = last ts" "hd ts = ts ! 0" by (cases ts; simp)+
    from loop_trials [OF l, of 0] one hl
    have t: "hd ts = mk_trial E A (x_ref st) (w_ref st) 0 (t_step (hd ts))" by simp
    from nv have en: "t_energy (hd ts) = None" by (subst t, subst (asm) t) simp
    then have "rejected E A (fx_ref st) ?td (last ts)" using hl by (simp add: rejected_def)
    moreover from it one hl z have "t_iter (last ts) = maxLineSearch (param A)" by simp
    ultimately show ?thesis using rej ne one en by simp
  qed
  from len it rej zero show ?thesis by blast
qed

theorem C9_iteration_budget_witness:
  "LineSearch ex_externals
     (ex_args (\<lambda>mu. Fin 9) (ex_param 0 LINE_SEARCH_TERMINATION_ARMIJO) (Fin (- 1)))
     (ex_state (Fin 10) (Fin 2)) =
   (Raised RuntimeError_MaxIterations, ex_final (Fin 10) 2, [ex_trial 0 2 False None]) \<and>
   maxLineSearch (ex_param 0 LINE_SEARCH_TERMINATION_ARMIJO) = 0 \<and>
   \<not> t_valid (hd [ex_trial 0 2 False None]) \<and>
   t_iter (last [ex_trial 0 2 False None]) = maxLineSearch (ex_param 0 LINE_SEARCH_TERMINATION_ARMIJO) \<and>
   rejected ex_externals (ex_args (\<lambda>mu. Fin 9) (ex_param 0 LINE_SEARCH_TERMINATION_ARMIJO) (Fin (- 1)))
     (Fin 10) (Fin (- 1 / 8)) (last [ex_trial 0 2 False None]) \<and>
   length [ex_trial 0 2 False None] \<le> nat (maxLineSearch (ex_param 0 LINE_SEARCH_TERMINATION_ARMIJO) + 1) \<and>
   t_iter ([ex_trial 0 2 False None] ! 0) = int 0 \<and>
   t_energy (hd [ex_trial 0 2 False None]) = None"
proof -
  have e: "LineSearch ex_externals
     (ex_args (\<lambda>mu. Fin 9) (ex_param 0 LINE_SEARCH_TERMINATION_ARMIJO) (Fin (- 1)))
     (ex_state (Fin 10) (Fin 2)) =
   (Raised RuntimeError_MaxIterations, ex_final (Fin 10) 2, [ex_trial 0 2 False None])"
    by (simp add: ls_eval)
  from C9_iteration_budget [OF e] e show ?thesis
    by (simp add: ex_args_def ex_trial_def ex_param_def ex_state_def rejected_def)
qed

subsection \<open>The references after a failure\<close>

text \<open>
  C10. When the call ends with an error raised inside the loop (iteration budget, step too
  small, step too large, or unknown termination mode), the references are not restored:
  \<open>x\<close> and \<open>w\<close> hold the candidate of the last trial, \<open>step\<close> is the step that trial was
  built with, and \<open>fx\<close> is the energy of the last trial that was evaluated (the initial energy
  when none was).
\<close>

theorem C10_references_after_failure:
  assumes "LineSearch E A st = (Raised e, stf, ts)" and "e \<noteq> LogicError_NotDescent"
  shows "ts \<noteq> [] \<and>
         e \<in> {RuntimeError_MaxIterations, RuntimeError_StepTooSmall, RuntimeError_StepTooLarge,
              InvalidArgument_Termination} \<and>
         step_ref stf = t_step (last ts) \<and>
         x_ref stf = trial_x E A (x_ref st) (step_ref stf) \<and>
         w_ref stf = trial_w E A (w_ref st) (step_ref stf) \<and>
         x_ref stf = t_x (last ts) \<and> w_ref stf = t_w (last ts) \<and>
         fx_ref stf = last_energy (fx_ref st) ts"
proof (cases "s_less (Fin 0) (dot E (grad A) (drt A))")
  case True
  from assms show ?thesis unfolding LineSearch_raise [OF True] by simp
next
  case False
  from assms(1) have l: "loop E A (x_ref st) (w_ref st) (fx_ref st)
      (s_mul E (ftol (param A)) (dot E (grad A) (drt A))) 0 st = (Raised e, stf, ts)"
    unfolding LineSearch_loop [OF False] .
  from loop_Raised [OF l] have ne: "ts \<noteq> []" and e: "e \<noteq> InvalidArgument_StepPositive"
    by simp_all
  from e assms(2) have kind: "e \<in> {RuntimeError_MaxIterations, RuntimeError_StepTooSmall,
      RuntimeError_StepTooLarge, InvalidArgument_Termination}"
    by (cases e) simp_all
  from ne have "last ts = ts ! (length ts - 1)" by (simp add: last_conv_nth)
  with loop_trials [OF l, of "length ts - 1"] ne
  have t: "last ts = mk_trial E A (x_ref st) (w_ref st) (int (length ts - 1)) (t_step (last ts))"
    by simp
  have tx: "t_x (last ts) = trial_x E A (x_ref st) (t_step (last ts))"
    and tw: "t_w (last ts) = trial_w E A (w_ref st) (t_step (last ts))"
    by (subst t, simp)+
  from loop_final [OF l ne] loop_fx [OF l] ne kind tx tw show ?thesis by simp
qed

theorem C10_references_after_failure_witness:
  "LineSearch ex_externals
     (ex_args (\<lambda>mu. Fin 11) (ex_param 1 LINE_SEARCH_TERMINATION_DECREASE) (Fin (- 1)))
     (ex_state (Fin 10) (Fin (1 / 2))) =
   (Raised RuntimeError_MaxIterations, ex_final (Fin 11) (1 / 4),
    [ex_trial 0 (1 / 2) True (Some (Fin 11)), ex_trial 1 (1 / 4) True (Some (Fin 11))]) \<and>
   RuntimeError_MaxIterations \<noteq> LogicError_NotDescent \<and>
   x_ref (ex_final (Fin 11) (1 / 4)) = t_x (ex_trial 1 (1 / 4) True (Some (Fin 11))) \<and>
   w_ref (ex_final (Fin 11) (1 / 4)) = t_w (ex_trial 1 (1 / 4) True (Some (Fin 11))) \<and>
   step_ref (ex_final (Fin 11) (1 / 4)) = t_step (ex_trial 1 (1 / 4) True (Some (Fin 11))) \<and>
   fx_ref (ex_final (Fin 11) (1 / 4)) = Fin 11 \<and>
   x_ref (ex_final (Fin 11) (1 / 4)) \<noteq> x_ref (ex_state (Fin 10) (Fin (1 / 2))) \<and>
   w_ref (ex_final (Fin 11) (1 / 4)) \<noteq> w_ref (ex_state (Fin 10) (Fin (1 / 2))) \<and>
   fx_ref (ex_final (Fin 11) (1 / 4)) \<noteq> fx_ref (ex_state (Fin 10) (Fin (1 / 2))) \<and>
   step_ref (ex_final (Fin 11) (1 / 4)) \<noteq> step_ref (ex_state (Fin 10) (Fin (1 / 2)))"
proof -
  have e: "LineSearch ex_externals
     (ex_args (\<lambda>mu. Fin 11) (ex_param 1 LINE_SEARCH_TERMINATION_DECREASE) (Fin (- 1)))
     (ex_state (Fin 10) (Fin (1 / 2))) =
   (Raised RuntimeError_MaxIterations, ex_final (Fin 11) (1 / 4),
    [ex_trial 0 (1 / 2) True (Some (Fin 11)), ex_trial 1 (1 / 4) True (Some (Fin 11))])"
    by (simp add: ls_eval)
  have n: "RuntimeError_MaxIterations \<noteq> LogicError_NotDescent" by simp
  from C10_references_after_failure [OF e n] e show ?thesis
    by (simp add: ls_eval last_energy_def)
qed

end
